theory Spec2Isabelle
  imports Complex_Main
begin

section \<open>Data model\<close>

text \<open>
  \<^verbatim>\<open>class ProcessingMode(Enum)\<close> has the three members \<open>DIVERGENT\<close>,
  \<open>CONVERGENT\<close> and \<open>BILATERAL\<close>.
\<close>

datatype ProcessingMode = DIVERGENT | CONVERGENT | BILATERAL

text \<open>
  \<^verbatim>\<open>@dataclass class ProcessingResult\<close>: five fields, none of them validated
  by the source. A Python \<open>float\<close> is read as the real number it denotes (order
  comparisons of finite floats are exact, so they agree with the order of the reals).
\<close>

record ProcessingResult =
  insights :: "string list"
  confidence :: real
  processing_path :: "string list"
  resource_usage :: real
  novelty_score :: real

section \<open>TaskOptimizer\<close>

text \<open>
  \<^verbatim>\<open>TaskOptimizer.optimize_processing(task, complexity, creativity_required,
  analysis_required)\<close>: an \<open>if\<close>/\<open>elif\<close>/\<open>else\<close> chain over two strict comparisons;
  \<open>task\<close> and \<open>complexity\<close> are not read.
\<close>

definition optimize_processing :: "string \<Rightarrow> real \<Rightarrow> real \<Rightarrow> real \<Rightarrow> ProcessingMode" where
  "optimize_processing task complexity creativity_required analysis_required =
     (if creativity_required > 0.7 \<and> analysis_required > 0.7 then BILATERAL
      else if creativity_required > analysis_required then DIVERGENT
      else CONVERGENT)"

section \<open>Collaborators of the integration engine\<close>

text \<open>
  \<^verbatim>\<open>CorpusCallosum.__init__\<close> instantiates \<open>ConflictResolver\<close> and
  \<open>PatternIntegrator\<close>, and \<^verbatim>\<open>integrate_results\<close> calls
  \<open>find_synergies\<close> and \<open>resolve\<close> on them and five private methods
  (\<open>_merge_insights\<close>, \<open>_calculate_confidence\<close>, \<open>_combine_paths\<close>,
  \<open>_calculate_resource_usage\<close>, \<open>_calculate_novelty\<close>). None of these has a
  body in \<^verbatim>\<open>syna.py\<close>. The definitions of this section and the next supply
  them; each one says where it comes from. A leading underscore is dropped from the
  method names.
\<close>

text \<open>
  Modelled from the spec: the synergy set returned by the missing
  \<open>PatternIntegrator.find_synergies\<close> (section 4.3, step 1): one entry per detected
  pair of insights, one from each side, with a scalar strength, and the insight
  synthesized from the pair when there is one (step 3).
\<close>

record synergy =
  syn_divergent_insight :: string
  syn_convergent_insight :: string
  synergy_strength :: real
  synthesized :: "string option"

text \<open>
  The missing class \<open>PatternIntegrator\<close> is a pluggable detector (section 9): its one
  method is taken as a parameter.
\<close>

record PatternIntegrator =
  find_synergies :: "ProcessingResult \<Rightarrow> ProcessingResult \<Rightarrow> synergy list"

text \<open>
  Modelled from the spec: the outcome of the missing \<open>ConflictResolver.resolve\<close>
  (section 4.3, step 2). Each detected conflict carries a penalty and a resolution: keep
  one side, merge into a qualified statement, or drop both.
\<close>

datatype resolution = KeepDivergent | KeepConvergent | MergeQualified string | DropBoth

record conflict =
  con_divergent_insight :: string
  con_convergent_insight :: string
  conflict_penalty :: real
  outcome :: resolution

text \<open>
  Modelled from the spec: what \<open>resolve\<close> returns. The call
  \<^verbatim>\<open>self._calculate_confidence(synergies, resolved_conflicts)\<close> receives nothing
  else of the two inputs, so the value also records the two originating confidences that
  the resolution policy compares.
\<close>

record resolved_conflicts =
  originating_divergent :: real
  originating_convergent :: real
  conflicts :: "conflict list"

text \<open>
  The missing class \<open>ConflictResolver\<close>: which pairs of insights contradict each other,
  and with what penalty, is a pluggable detector taken as a parameter.
\<close>

record ConflictResolver =
  detect_conflicts :: "ProcessingResult \<Rightarrow> ProcessingResult \<Rightarrow> (string \<times> string \<times> real) list"

text \<open>
  Modelled from the spec: the resolution policy of the missing
  \<open>ConflictResolver.resolve\<close>: prefer the side with the higher originating confidence;
  on an exact tie prefer the convergent side.
\<close>

definition prefer_side :: "real \<Rightarrow> real \<Rightarrow> resolution" where
  "prefer_side d_conf c_conf = (if d_conf > c_conf then KeepDivergent else KeepConvergent)"

definition resolve :: "ConflictResolver \<Rightarrow> ProcessingResult \<Rightarrow> ProcessingResult \<Rightarrow> resolved_conflicts" where
  "resolve cr d c =
     \<lparr>originating_divergent = confidence d,
      originating_convergent = confidence c,
      conflicts =
        map (\<lambda>(di, ci, pen).
               \<lparr>con_divergent_insight = di, con_convergent_insight = ci,
                conflict_penalty = pen,
                outcome = prefer_side (confidence d) (confidence c)\<rparr>)
            (detect_conflicts cr d c)\<rparr>"



section \<open>CorpusCallosum\<close>

text \<open>
  The instance state that \<^verbatim>\<open>CorpusCallosum.__init__\<close> sets: the threshold
  \<open>0.6\<close> and the two collaborators.
\<close>

record CorpusCallosum =
  synergy_threshold :: real
  conflict_resolver :: ConflictResolver
  pattern_integrator :: PatternIntegrator

text \<open>
  The constants that the spec's formulas name without fixing a value: the text of the
  integration marker (step 5), the integration overhead (step 6) and the score by which
  a synergy set is rewarded with novelty (step 7). They are parameters of the
  development.
\<close>

record integration_constants =
  integration_marker :: string
  integration_overhead :: real
  novelty_reward :: "synergy list \<Rightarrow> real"

text \<open>Modelled from the spec: \<open>clamp01\<close> of the formulas of steps 4 and 7.\<close>

definition clamp01 :: "real \<Rightarrow> real" where
  "clamp01 x = max 0 (min 1 x)"

text \<open>
  Modelled from the spec: the insight merge of section 4.3, step 3, in the spec's words:
  the divergent insights in their order, then each convergent insight that is not
  already present, then the synthesized synergy insights, less every insight dropped by
  conflict resolution.
\<close>

fun add_absent :: "string list \<Rightarrow> string list \<Rightarrow> string list" where
  "add_absent acc [] = acc"
| "add_absent acc (x # xs) =
     (if x \<in> set acc then add_absent acc xs else add_absent (acc @ [x]) xs)"

definition synthesized_insights :: "synergy list \<Rightarrow> string list" where
  "synthesized_insights syns =
     concat (map (\<lambda>s. case synthesized s of None \<Rightarrow> [] | Some x \<Rightarrow> [x]) syns)"

definition spec_merge_insights ::
  "string list \<Rightarrow> string list \<Rightarrow> synergy list \<Rightarrow> string list \<Rightarrow> string list" where
  "spec_merge_insights divergent_insights convergent_insights synergies dropped =
     filter (\<lambda>x. x \<notin> set dropped)
       (add_absent divergent_insights convergent_insights @ synthesized_insights synergies)"

text \<open>
  Modelled from the spec: the missing \<open>_merge_insights(divergent_insights,
  convergent_insights, synergies)\<close> as the call of lines 71 to 75 can run it. The call
  passes the two insight lists and the synergies; the outcome of conflict resolution
  (line 66) goes to line 79 only. The helper is therefore the spec's merge with no
  dropped insight to act on.
\<close>

definition merge_insights :: "string list \<Rightarrow> string list \<Rightarrow> synergy list \<Rightarrow> string list" where
  "merge_insights divergent_insights convergent_insights synergies =
     spec_merge_insights divergent_insights convergent_insights synergies []"

text \<open>
  Modelled from the spec: the missing \<open>_calculate_confidence(synergies,
  resolved_conflicts)\<close> (section 4.3, step 4): the average of the two originating
  confidences, plus \<open>0.1\<close> per unit of synergy strength capped at \<open>0.3\<close>, minus
  \<open>0.1\<close> per unit of conflict penalty capped at \<open>0.3\<close>, clamped to \<open>[0, 1]\<close>.
\<close>

definition total_synergy_bonus :: "synergy list \<Rightarrow> real" where
  "total_synergy_bonus syns = min 0.3 (0.1 * sum_list (map synergy_strength syns))"

definition total_conflict_penalty :: "conflict list \<Rightarrow> real" where
  "total_conflict_penalty ks = min 0.3 (0.1 * sum_list (map conflict_penalty ks))"

definition calculate_confidence :: "synergy list \<Rightarrow> resolved_conflicts \<Rightarrow> real" where
  "calculate_confidence synergies resolved =
     clamp01 ((originating_divergent resolved + originating_convergent resolved) / 2
              + total_synergy_bonus synergies
              - total_conflict_penalty (conflicts resolved))"

text \<open>
  Modelled from the spec: the missing \<open>_combine_paths(divergent_path,
  convergent_path)\<close> (step 5): the divergent path, then the convergent path, then an
  integration marker.
\<close>

definition combine_paths :: "integration_constants \<Rightarrow> string list \<Rightarrow> string list \<Rightarrow> string list" where
  "combine_paths k divergent_path convergent_path =
     divergent_path @ convergent_path @ [integration_marker k]"

text \<open>
  Modelled from the spec: the missing \<open>_calculate_resource_usage\<close> (step 6): the sum
  of both usages plus the fixed overhead.
\<close>

definition calculate_resource_usage :: "integration_constants \<Rightarrow> real \<Rightarrow> real \<Rightarrow> real" where
  "calculate_resource_usage k divergent_usage convergent_usage =
     divergent_usage + convergent_usage + integration_overhead k"

text \<open>
  Modelled from the spec: the \<open>synergy_novelty_bonus\<close> of step 7. The spec gives it
  no formula and calls it a reward that never lets the novelty decrease, so it is the
  instance's score of the synergy set, never less than \<open>0\<close>.
\<close>

definition synergy_novelty_bonus :: "integration_constants \<Rightarrow> synergy list \<Rightarrow> real" where
  "synergy_novelty_bonus k synergies = max 0 (novelty_reward k synergies)"

text \<open>
  Modelled from the spec: the missing \<open>_calculate_novelty(divergent_novelty,
  convergent_novelty, synergies)\<close> (step 7).
\<close>

definition calculate_novelty :: "integration_constants \<Rightarrow> real \<Rightarrow> real \<Rightarrow> synergy list \<Rightarrow> real" where
  "calculate_novelty k divergent_novelty convergent_novelty synergies =
     clamp01 (max divergent_novelty convergent_novelty + synergy_novelty_bonus k synergies)"

text \<open>
  \<^verbatim>\<open>CorpusCallosum.integrate_results(divergent_result, convergent_result)\<close>, lines
  54 to 93: the two collaborator calls, the merge, and the construction of the result
  from the five helper values.
\<close>

definition integrate_results ::
  "integration_constants \<Rightarrow> CorpusCallosum \<Rightarrow> ProcessingResult \<Rightarrow> ProcessingResult \<Rightarrow> ProcessingResult" where
  "integrate_results k self divergent_result convergent_result =
     (let synergies = find_synergies (pattern_integrator self) divergent_result convergent_result;
          resolved = resolve (conflict_resolver self) divergent_result convergent_result;
          integrated_insights =
            merge_insights (insights divergent_result) (insights convergent_result) synergies
      in \<lparr>insights = integrated_insights,
          confidence = calculate_confidence synergies resolved,
          processing_path =
            combine_paths k (processing_path divergent_result) (processing_path convergent_result),
          resource_usage =
            calculate_resource_usage k (resource_usage divergent_result)
              (resource_usage convergent_result),
          novelty_score =
            calculate_novelty k (novelty_score divergent_result)
              (novelty_score convergent_result) synergies\<rparr>)"


section \<open>Strategies, tasks and the event trace\<close>

text \<open>
  An exception is a value: \<open>NameError\<close> is Python's, for a global name that is not
  bound; \<open>StrategyFailure\<close> and \<open>InvalidProfile\<close> stand for whatever a strategy or
  the profile producer raises (section 7 of the spec).
\<close>

datatype error = NameError string | StrategyFailure string | InvalidProfile string

text \<open>
  The classes \<open>DivergentProcessor\<close> and \<open>ConvergentProcessor\<close> are missing from the
  source. Their one method, \<^verbatim>\<open>async process_thought(input_data)\<close>, is taken as a
  parameter: it returns a result or raises. It is a function of the input alone (the two
  strategies share no mutable state, section 4.2).
\<close>

type_synonym strategy = "string \<Rightarrow> error + ProcessingResult"

datatype task = DivergentTask | ConvergentTask

text \<open>The order in which the event loop completes the two tasks.\<close>

datatype schedule = DivergentFirst | ConvergentFirst

text \<open>What an execution does, in order, kept beside its result.\<close>

datatype event =
    ModeSelected ProcessingMode
  | Dispatched task
  | Integrated ProcessingResult ProcessingResult

text \<open>
  \<^verbatim>\<open>await asyncio.gather(divergent_task, convergent_task)\<close> with the default
  \<open>return_exceptions=False\<close>: the first exception raised, in completion order, is
  propagated to the awaiting caller; when both tasks succeed the list of results is in
  the order of the arguments, whatever the completion order.
\<close>

definition gather ::
  "schedule \<Rightarrow> error + ProcessingResult \<Rightarrow> error + ProcessingResult
     \<Rightarrow> error + (ProcessingResult \<times> ProcessingResult)" where
  "gather sched d_out c_out =
     (case sched of
        DivergentFirst \<Rightarrow>
          (case d_out of
             Inl e \<Rightarrow> Inl e
           | Inr d \<Rightarrow> (case c_out of Inl e \<Rightarrow> Inl e | Inr c \<Rightarrow> Inr (d, c)))
      | ConvergentFirst \<Rightarrow>
          (case c_out of
             Inl e \<Rightarrow> Inl e
           | Inr c \<Rightarrow> (case d_out of Inl e \<Rightarrow> Inl e | Inr d \<Rightarrow> Inr (d, c))))"

section \<open>BilateralProcessor\<close>

record BilateralProcessor =
  bp_divergent :: strategy
  bp_convergent :: strategy
  corpus_callosum :: CorpusCallosum
  integration_threshold :: real

text \<open>
  \<^verbatim>\<open>BilateralProcessor.process_thought(input_data)\<close>, lines 27 to 45: both tasks
  are created, then gathered; only after the gather returns a pair is
  \<open>integrate_results\<close> called, with \<open>d_result\<close> first and \<open>c_result\<close> second.
\<close>

definition process_thought ::
  "integration_constants \<Rightarrow> BilateralProcessor \<Rightarrow> schedule \<Rightarrow> string
     \<Rightarrow> event list \<times> (error + ProcessingResult)" where
  "process_thought k self sched input_data =
     (let divergent_task = bp_divergent self input_data;
          convergent_task = bp_convergent self input_data
      in case gather sched divergent_task convergent_task of
           Inl e \<Rightarrow> ([Dispatched DivergentTask, Dispatched ConvergentTask], Inl e)
         | Inr (d_result, c_result) \<Rightarrow>
             ([Dispatched DivergentTask, Dispatched ConvergentTask,
               Integrated d_result c_result],
              Inr (integrate_results k (corpus_callosum self) d_result c_result)))"

section \<open>ModeSelector and EnhancedSyna\<close>

record TaskProfile =
  complexity :: real
  creativity_required :: real
  analysis_required :: real

text \<open>
  The class \<open>ModeSelector\<close> is missing from the source. \<open>analyze_task\<close> is taken as a
  parameter; it returns a profile or raises.
\<close>

record ModeSelector =
  analyze_task :: "string \<Rightarrow> error + TaskProfile"

text \<open>
  Modelled from the spec: the missing \<open>ModeSelector.select_mode(profile)\<close> (section
  4.1), the three-branch policy over the profile's two requirements.
\<close>

definition select_mode :: "TaskProfile \<Rightarrow> ProcessingMode" where
  "select_mode profile =
     (if creativity_required profile > 0.7 \<and> analysis_required profile > 0.7 then BILATERAL
      else if creativity_required profile > analysis_required profile then DIVERGENT
      else CONVERGENT)"

record EnhancedSyna =
  es_divergent :: strategy
  es_convergent :: strategy
  bilateral :: BilateralProcessor
  mode_selector :: ModeSelector
  current_mode :: ProcessingMode

text \<open>
  \<^verbatim>\<open>EnhancedSyna.process_input(input_data)\<close>, lines 104 to 120: analyse, select,
  then one of three branches; a single strategy's result is returned as it is.
\<close>

definition process_input ::
  "integration_constants \<Rightarrow> EnhancedSyna \<Rightarrow> schedule \<Rightarrow> string
     \<Rightarrow> event list \<times> (error + ProcessingResult)" where
  "process_input k self sched input_data =
     (case analyze_task (mode_selector self) input_data of
        Inl e \<Rightarrow> ([], Inl e)
      | Inr task_profile \<Rightarrow>
          (let optimal_mode = select_mode task_profile
           in if optimal_mode = BILATERAL then
                (case process_thought k (bilateral self) sched input_data of
                   (trace, result) \<Rightarrow> (ModeSelected optimal_mode # trace, result))
              else if optimal_mode = DIVERGENT then
                ([ModeSelected optimal_mode, Dispatched DivergentTask],
                 es_divergent self input_data)
              else
                ([ModeSelected optimal_mode, Dispatched ConvergentTask],
                 es_convergent self input_data)))"

section \<open>Construction and the module's names\<close>

text \<open>
  The global names that \<^verbatim>\<open>syna.py\<close> binds: those of its four import statements
  and of its eight class statements. A name used in a method body is looked up when the
  body runs, in these and then in the builtins, which hold none of the five collaborator
  names.
\<close>

definition module_names :: "string list" where
  "module_names =
     [''Enum'', ''auto'', ''dataclass'', ''asyncio'',
      ''List'', ''Dict'', ''Tuple'', ''Optional'',
      ''ProcessingMode'', ''ProcessingResult'', ''BilateralProcessor'', ''CorpusCallosum'',
      ''EnhancedSyna'', ''TaskOptimizer'', ''BilateralSynapse'', ''BilateralNetwork'']"

text \<open>What calling each of the five missing classes would return, were its name bound.\<close>

record collaborators =
  new_DivergentProcessor :: strategy
  new_ConvergentProcessor :: strategy
  new_ModeSelector :: ModeSelector
  new_ConflictResolver :: ConflictResolver
  new_PatternIntegrator :: PatternIntegrator

definition call_global :: "string list \<Rightarrow> string \<Rightarrow> 'a \<Rightarrow> error + 'a" where
  "call_global names n v = (if n \<in> set names then Inr v else Inl (NameError n))"

definition and_then :: "error + 'a \<Rightarrow> ('a \<Rightarrow> error + 'b) \<Rightarrow> error + 'b" where
  "and_then m f = (case m of Inl e \<Rightarrow> Inl e | Inr v \<Rightarrow> f v)"

text \<open>\<^verbatim>\<open>CorpusCallosum.__init__\<close>, lines 49 to 52.\<close>

definition CorpusCallosum_init :: "string list \<Rightarrow> collaborators \<Rightarrow> error + CorpusCallosum" where
  "CorpusCallosum_init names cls =
     and_then (call_global names ''ConflictResolver'' (new_ConflictResolver cls)) (\<lambda>cr.
     and_then (call_global names ''PatternIntegrator'' (new_PatternIntegrator cls)) (\<lambda>pi.
     Inr \<lparr>synergy_threshold = 0.6, conflict_resolver = cr, pattern_integrator = pi\<rparr>))"

text \<open>\<^verbatim>\<open>BilateralProcessor.__init__\<close>, lines 21 to 25.\<close>

definition BilateralProcessor_init :: "string list \<Rightarrow> collaborators \<Rightarrow> error + BilateralProcessor" where
  "BilateralProcessor_init names cls =
     and_then (call_global names ''DivergentProcessor'' (new_DivergentProcessor cls)) (\<lambda>d.
     and_then (call_global names ''ConvergentProcessor'' (new_ConvergentProcessor cls)) (\<lambda>c.
     and_then (call_global names ''CorpusCallosum'' (CorpusCallosum_init names cls)) (\<lambda>construct.
     and_then construct (\<lambda>cc.
     Inr \<lparr>bp_divergent = d, bp_convergent = c, corpus_callosum = cc,
          integration_threshold = 0.7\<rparr>))))"

text \<open>\<^verbatim>\<open>EnhancedSyna.__init__\<close>, lines 97 to 102.\<close>

definition EnhancedSyna_init :: "string list \<Rightarrow> collaborators \<Rightarrow> error + EnhancedSyna" where
  "EnhancedSyna_init names cls =
     and_then (call_global names ''DivergentProcessor'' (new_DivergentProcessor cls)) (\<lambda>d.
     and_then (call_global names ''ConvergentProcessor'' (new_ConvergentProcessor cls)) (\<lambda>c.
     and_then (call_global names ''BilateralProcessor'' (BilateralProcessor_init names cls)) (\<lambda>construct.
     and_then construct (\<lambda>b.
     and_then (call_global names ''ModeSelector'' (new_ModeSelector cls)) (\<lambda>m.
     Inr \<lparr>es_divergent = d, es_convergent = c, bilateral = b, mode_selector = m,
          current_mode = BILATERAL\<rparr>)))))"

text \<open>
  The public entry point: \<open>process_input\<close> is an instance method, so a caller
  constructs \<open>EnhancedSyna()\<close> and then calls it.
\<close>

definition construct_and_process ::
  "integration_constants \<Rightarrow> string list \<Rightarrow> collaborators \<Rightarrow> schedule \<Rightarrow> string
     \<Rightarrow> event list \<times> (error + ProcessingResult)" where
  "construct_and_process k names cls sched input_data =
     (case EnhancedSyna_init names cls of
        Inl e \<Rightarrow> ([], Inl e)
      | Inr self \<Rightarrow> process_input k self sched input_data)"

section \<open>Results as objects in a store\<close>

text \<open>
  A Python list and a dataclass instance are mutable objects reached by reference, and
  \<^verbatim>\<open>@dataclass class ProcessingResult\<close> is not frozen. The store is the sequence
  of objects allocated so far; an address is an index into it, so a new object takes the
  next index, and an object that exists can be replaced in place. A
  \<open>ProcessingResult\<close> object holds its two lists by reference and its three floats by
  value.
\<close>

type_synonym addr = nat

record result_obj =
  insights_ref :: addr
  confidence_val :: real
  path_ref :: addr
  usage_val :: real
  novelty_val :: real

datatype obj =
    ListObj "string list"
  | ResultObj result_obj

type_synonym store = "obj list"

definition alloc :: "store \<Rightarrow> obj \<Rightarrow> addr \<times> store" where
  "alloc h ob = (length h, h @ [ob])"






text \<open>A store \<open>h'\<close> extends \<open>h\<close> when every object of \<open>h\<close> is in \<open>h'\<close>, unchanged.\<close>

definition extends :: "store \<Rightarrow> store \<Rightarrow> bool" where
  "extends h h' = (take (length h) h' = h)"




section \<open>The spec's statements as predicates\<close>


text \<open>
  The invariant of the spec's section 3 on a result returned to a caller: a non-empty
  processing path and a confidence in \<open>[0, 1]\<close>.
\<close>

definition well_formed :: "ProcessingResult \<Rightarrow> bool" where
  "well_formed r = (processing_path r \<noteq> [] \<and> 0 \<le> confidence r \<and> confidence r \<le> 1)"

section \<open>Example values\<close>

text \<open>
  The scenario of the spec's section 8: divergent insights \<open>A, B\<close>, convergent
  insights \<open>B, C\<close>, no conflict, one synergy pair \<open>(A, C)\<close> of strength \<open>0.5\<close>.
\<close>

definition ex_divergent_result :: ProcessingResult where
  "ex_divergent_result =
     \<lparr>insights = [''A'', ''B''], confidence = 0.6, processing_path = [''divergent''],
      resource_usage = 1, novelty_score = 0.8\<rparr>"

definition ex_convergent_result :: ProcessingResult where
  "ex_convergent_result =
     \<lparr>insights = [''B'', ''C''], confidence = 0.8, processing_path = [''convergent''],
      resource_usage = 2, novelty_score = 0.3\<rparr>"

definition ex_constants :: integration_constants where
  "ex_constants =
     \<lparr>integration_marker = ''integration'', integration_overhead = 0.1,
      novelty_reward = (\<lambda>syns. min 0.2 (0.1 * sum_list (map synergy_strength syns)))\<rparr>"

definition ex_callosum :: CorpusCallosum where
  "ex_callosum =
     \<lparr>synergy_threshold = 0.6,
      conflict_resolver = \<lparr>detect_conflicts = (\<lambda>d c. [])\<rparr>,
      pattern_integrator =
        \<lparr>find_synergies = (\<lambda>d c.
           [\<lparr>syn_divergent_insight = ''A'', syn_convergent_insight = ''C'',
             synergy_strength = 0.5, synthesized = None\<rparr>])\<rparr>\<rparr>"


definition ex_collaborators :: collaborators where
  "ex_collaborators =
     \<lparr>new_DivergentProcessor = (\<lambda>s. Inr ex_divergent_result),
      new_ConvergentProcessor = (\<lambda>s. Inr ex_convergent_result),
      new_ModeSelector =
        \<lparr>analyze_task = (\<lambda>s. Inr \<lparr>complexity = 0.5, creativity_required = 0.9,
                                   analysis_required = 0.8\<rparr>)\<rparr>,
      new_ConflictResolver = conflict_resolver ex_callosum,
      new_PatternIntegrator = pattern_integrator ex_callosum\<rparr>"

definition ex_bilateral :: BilateralProcessor where
  "ex_bilateral =
     \<lparr>bp_divergent = (\<lambda>s. Inr ex_divergent_result),
      bp_convergent = (\<lambda>s. Inr ex_convergent_result),
      corpus_callosum = ex_callosum, integration_threshold = 0.7\<rparr>"

definition ex_bilateral_failing :: BilateralProcessor where
  "ex_bilateral_failing =
     \<lparr>bp_divergent = (\<lambda>s. Inl (StrategyFailure ''divergent'')),
      bp_convergent = (\<lambda>s. Inr ex_convergent_result),
      corpus_callosum = ex_callosum, integration_threshold = 0.7\<rparr>"

definition ex_syna :: EnhancedSyna where
  "ex_syna =
     \<lparr>es_divergent = (\<lambda>s. Inr ex_divergent_result),
      es_convergent = (\<lambda>s. Inr ex_convergent_result),
      bilateral = ex_bilateral,
      mode_selector = new_ModeSelector ex_collaborators,
      current_mode = BILATERAL\<rparr>"

definition ex_syna_divergent :: EnhancedSyna where
  "ex_syna_divergent =
     \<lparr>es_divergent = (\<lambda>s. Inr ex_divergent_result),
      es_convergent = (\<lambda>s. Inr ex_convergent_result),
      bilateral = ex_bilateral,
      mode_selector =
        \<lparr>analyze_task = (\<lambda>s. Inr \<lparr>complexity = 0.5, creativity_required = 0.6,
                                   analysis_required = 0.2\<rparr>)\<rparr>,
      current_mode = BILATERAL\<rparr>"

text \<open>
  A result that the dataclass accepts and the data model excludes, and an instance
  whose divergent strategy returns it; the profile selects divergent-only mode.
\<close>

definition ex_malformed_result :: ProcessingResult where
  "ex_malformed_result =
     \<lparr>insights = [], confidence = 1.5, processing_path = [], resource_usage = 0,
      novelty_score = 0\<rparr>"

definition ex_syna_unchecked :: EnhancedSyna where
  "ex_syna_unchecked =
     \<lparr>es_divergent = (\<lambda>s. Inr ex_malformed_result),
      es_convergent = (\<lambda>s. Inr ex_convergent_result),
      bilateral = ex_bilateral,
      mode_selector =
        \<lparr>analyze_task = (\<lambda>s. Inr \<lparr>complexity = 0.5, creativity_required = 0.6,
                                   analysis_required = 0.2\<rparr>)\<rparr>,
      current_mode = BILATERAL\<rparr>"





section \<open>Mode selection\<close>

text \<open>
  C1. Mode selection is the exact three-branch policy: both requirements strictly above
  \<open>0.7\<close> give \<open>BILATERAL\<close>; otherwise a creativity requirement strictly above the
  analysis requirement gives \<open>DIVERGENT\<close>; otherwise, equality included, the mode is
  \<open>CONVERGENT\<close>. At \<open>0.71, 0.71\<close> the mode is \<open>BILATERAL\<close> and at \<open>0.7, 0.7\<close> it
  is \<open>CONVERGENT\<close>.
\<close>

theorem optimize_processing_policy:
  "(cr > 0.7 \<and> an > 0.7 \<longrightarrow> optimize_processing task cx cr an = BILATERAL) \<and>
   (\<not> (cr > 0.7 \<and> an > 0.7) \<and> cr > an \<longrightarrow> optimize_processing task cx cr an = DIVERGENT) \<and>
   (\<not> (cr > 0.7 \<and> an > 0.7) \<and> \<not> cr > an \<longrightarrow> optimize_processing task cx cr an = CONVERGENT) \<and>
   optimize_processing task cx 0.71 0.71 = BILATERAL \<and>
   optimize_processing task cx 0.7 0.7 = CONVERGENT"
  by (simp add: optimize_processing_def)

theorem optimize_processing_policy_witness:
  "optimize_processing ''t'' 0.5 0.9 0.8 = BILATERAL \<and>
   optimize_processing ''t'' 0.5 0.6 0.2 = DIVERGENT \<and>
   optimize_processing ''t'' 0.5 0.9 0.3 = DIVERGENT \<and>
   optimize_processing ''t'' 0.5 0.4 0.4 = CONVERGENT \<and>
   optimize_processing ''t'' 0.5 0.2 0.9 = CONVERGENT"
  using optimize_processing_policy [of "0.9" "0.8" "''t''" "0.5"]
        optimize_processing_policy [of "0.6" "0.2" "''t''" "0.5"]
        optimize_processing_policy [of "0.9" "0.3" "''t''" "0.5"]
        optimize_processing_policy [of "0.4" "0.4" "''t''" "0.5"]
        optimize_processing_policy [of "0.2" "0.9" "''t''" "0.5"]
  by simp

text \<open>
  The policy modelled for \<open>select_mode\<close> is the one \<open>optimize_processing\<close> computes
  on the profile's fields.
\<close>

lemma select_mode_optimize_processing:
  "select_mode p
     = optimize_processing task (complexity p) (creativity_required p) (analysis_required p)"
  by (simp add: select_mode_def optimize_processing_def)

section \<open>Construction fails on the module as it is\<close>

lemma missing_names:
  "''DivergentProcessor'' \<notin> set module_names \<and> ''ConvergentProcessor'' \<notin> set module_names \<and>
   ''ModeSelector'' \<notin> set module_names \<and> ''ConflictResolver'' \<notin> set module_names \<and>
   ''PatternIntegrator'' \<notin> set module_names"
  by (simp add: module_names_def)

text \<open>
  C10. No call of the public entry point produces a result: none of the five collaborator
  names is bound by the module, so \<open>CorpusCallosum()\<close>, \<open>BilateralProcessor()\<close> and
  \<open>EnhancedSyna()\<close> each raise \<open>NameError\<close> at the first of them, and constructing
  and calling \<open>process_input\<close> ends with that error and an empty trace: no mode is
  selected, nothing is dispatched, nothing is integrated.
\<close>

theorem construction_raises_NameError:
  "''DivergentProcessor'' \<notin> set module_names \<and> ''ConvergentProcessor'' \<notin> set module_names \<and>
   ''ModeSelector'' \<notin> set module_names \<and> ''ConflictResolver'' \<notin> set module_names \<and>
   ''PatternIntegrator'' \<notin> set module_names \<and>
   CorpusCallosum_init module_names cls = Inl (NameError ''ConflictResolver'') \<and>
   BilateralProcessor_init module_names cls = Inl (NameError ''DivergentProcessor'') \<and>
   EnhancedSyna_init module_names cls = Inl (NameError ''DivergentProcessor'') \<and>
   construct_and_process k module_names cls sched input_data
     = ([], Inl (NameError ''DivergentProcessor''))"
  using missing_names
  by (simp add: CorpusCallosum_init_def BilateralProcessor_init_def EnhancedSyna_init_def
      construct_and_process_def call_global_def and_then_def)

theorem construction_raises_NameError_witness:
  "construct_and_process ex_constants module_names ex_collaborators ConvergentFirst ''idea''
     = ([], Inl (NameError ''DivergentProcessor''))"
  using construction_raises_NameError [of ex_collaborators ex_constants ConvergentFirst "''idea''"]
  by simp

text \<open>
  With the five names bound, construction succeeds and yields the state that the three
  \<open>__init__\<close> bodies assign.
\<close>

lemma construction_succeeds_when_bound:
  "EnhancedSyna_init
     (''DivergentProcessor'' # ''ConvergentProcessor'' # ''ModeSelector'' #
      ''ConflictResolver'' # ''PatternIntegrator'' # module_names) cls
   = Inr \<lparr>es_divergent = new_DivergentProcessor cls,
          es_convergent = new_ConvergentProcessor cls,
          bilateral =
            \<lparr>bp_divergent = new_DivergentProcessor cls,
             bp_convergent = new_ConvergentProcessor cls,
             corpus_callosum =
               \<lparr>synergy_threshold = 0.6, conflict_resolver = new_ConflictResolver cls,
                pattern_integrator = new_PatternIntegrator cls\<rparr>,
             integration_threshold = 0.7\<rparr>,
          mode_selector = new_ModeSelector cls, current_mode = BILATERAL\<rparr>"
  by (simp add: CorpusCallosum_init_def BilateralProcessor_init_def EnhancedSyna_init_def
      call_global_def and_then_def module_names_def)

section \<open>The orchestrator\<close>

lemma gather_Inr:
  "gather sched (Inr d) (Inr c) = Inr (d, c)"
  by (cases sched) (simp_all add: gather_def)

lemma gather_failure:
  assumes "isl d_out \<or> isl c_out"
  shows "\<exists>e. gather sched d_out c_out = Inl e \<and> (d_out = Inl e \<or> c_out = Inl e)"
  using assms by (cases sched; cases d_out; cases c_out) (simp_all add: gather_def)

lemma process_thought_failure:
  assumes "isl (bp_divergent self input_data) \<or> isl (bp_convergent self input_data)"
  shows "\<exists>e. process_thought k self sched input_data
               = ([Dispatched DivergentTask, Dispatched ConvergentTask], Inl e) \<and>
             (bp_divergent self input_data = Inl e \<or> bp_convergent self input_data = Inl e)"
proof -
  from gather_failure [OF assms, of sched] obtain e where
    g: "gather sched (bp_divergent self input_data) (bp_convergent self input_data) = Inl e"
    and src: "bp_divergent self input_data = Inl e \<or> bp_convergent self input_data = Inl e"
    by blast
  have "process_thought k self sched input_data
          = ([Dispatched DivergentTask, Dispatched ConvergentTask], Inl e)"
    by (simp add: process_thought_def Let_def g)
  with src show ?thesis by blast
qed

lemma process_thought_integrates_only_pairs:
  "Integrated d c \<in> set (fst (process_thought k self sched input_data)) \<Longrightarrow>
     bp_divergent self input_data = Inr d \<and> bp_convergent self input_data = Inr c"
  by (cases sched; cases "bp_divergent self input_data"; cases "bp_convergent self input_data")
     (simp_all add: process_thought_def Let_def gather_def)

text \<open>
  C6. When either strategy call fails, \<open>process_thought\<close> propagates a failure raised
  by one of the two strategies and never calls \<open>integrate_results\<close>; and whenever
  \<open>integrate_results\<close> is called, its two arguments are the results that the two
  strategies returned.
\<close>

theorem failure_is_propagated_without_integration:
  "(isl (bp_divergent self input_data) \<or> isl (bp_convergent self input_data) \<longrightarrow>
      (\<exists>e. snd (process_thought k self sched input_data) = Inl e \<and>
           (bp_divergent self input_data = Inl e \<or> bp_convergent self input_data = Inl e)) \<and>
      (\<forall>d c. Integrated d c \<notin> set (fst (process_thought k self sched input_data)))) \<and>
   (\<forall>d c. Integrated d c \<in> set (fst (process_thought k self sched input_data)) \<longrightarrow>
      bp_divergent self input_data = Inr d \<and> bp_convergent self input_data = Inr c)"
proof (intro conjI impI allI)
  assume f: "isl (bp_divergent self input_data) \<or> isl (bp_convergent self input_data)"
  from process_thought_failure [OF f, of k sched]
  show "\<exists>e. snd (process_thought k self sched input_data) = Inl e \<and>
           (bp_divergent self input_data = Inl e \<or> bp_convergent self input_data = Inl e)"
    by auto
next
  fix d c
  assume f: "isl (bp_divergent self input_data) \<or> isl (bp_convergent self input_data)"
  from process_thought_failure [OF f, of k sched]
  show "Integrated d c \<notin> set (fst (process_thought k self sched input_data))"
    by auto
next
  fix d c
  assume "Integrated d c \<in> set (fst (process_thought k self sched input_data))"
  then show "bp_divergent self input_data = Inr d"
    by (simp add: process_thought_integrates_only_pairs)
next
  fix d c
  assume "Integrated d c \<in> set (fst (process_thought k self sched input_data))"
  then show "bp_convergent self input_data = Inr c"
    by (simp add: process_thought_integrates_only_pairs)
qed

theorem failure_is_propagated_without_integration_witness:
  "isl (bp_divergent ex_bilateral_failing ''idea'') \<and>
   snd (process_thought ex_constants ex_bilateral_failing ConvergentFirst ''idea'')
     = Inl (StrategyFailure ''divergent'') \<and>
   Integrated ex_divergent_result ex_convergent_result
     \<notin> set (fst (process_thought ex_constants ex_bilateral_failing ConvergentFirst ''idea''))"
proof -
  have h: "isl (bp_divergent ex_bilateral_failing ''idea'')"
    by (simp add: ex_bilateral_failing_def)
  have conv: "bp_convergent ex_bilateral_failing ''idea'' = Inr ex_convergent_result"
    and div: "bp_divergent ex_bilateral_failing ''idea'' = Inl (StrategyFailure ''divergent'')"
    by (simp_all add: ex_bilateral_failing_def)
  from failure_is_propagated_without_integration
         [of ex_bilateral_failing "''idea''" ex_constants ConvergentFirst] h conv div
  show ?thesis by auto
qed

text \<open>
  C7. Completion order never affects the result: when both strategies return,
  \<open>integrate_results\<close> receives the divergent strategy's result first and the
  convergent strategy's result second under every schedule, and an execution that
  returns a result under one schedule is the same execution under any other.
\<close>

theorem completion_order_is_irrelevant:
  "(\<forall>d c. bp_divergent self input_data = Inr d \<and> bp_convergent self input_data = Inr c \<longrightarrow>
      (\<forall>sched. process_thought k self sched input_data
         = ([Dispatched DivergentTask, Dispatched ConvergentTask, Integrated d c],
            Inr (integrate_results k (corpus_callosum self) d c)))) \<and>
   (\<forall>s1 s2 r. snd (process_thought k self s1 input_data) = Inr r \<longrightarrow>
      process_thought k self s2 input_data = process_thought k self s1 input_data)"
proof (intro conjI allI impI)
  fix d c sched
  assume "bp_divergent self input_data = Inr d \<and> bp_convergent self input_data = Inr c"
  then show "process_thought k self sched input_data
         = ([Dispatched DivergentTask, Dispatched ConvergentTask, Integrated d c],
            Inr (integrate_results k (corpus_callosum self) d c))"
    by (simp add: process_thought_def Let_def gather_Inr)
next
  fix s1 s2 r
  assume ok: "snd (process_thought k self s1 input_data) = Inr r"
  show "process_thought k self s2 input_data = process_thought k self s1 input_data"
  proof (cases "isl (bp_divergent self input_data) \<or> isl (bp_convergent self input_data)")
    case True
    from gather_failure [OF True, of s1] obtain e where
      "gather s1 (bp_divergent self input_data) (bp_convergent self input_data) = Inl e"
      by blast
    then have "snd (process_thought k self s1 input_data) = Inl e"
      by (simp add: process_thought_def Let_def)
    with ok show ?thesis by simp
  next
    case False
    then obtain d c where "bp_divergent self input_data = Inr d"
      and "bp_convergent self input_data = Inr c"
      by (cases "bp_divergent self input_data"; cases "bp_convergent self input_data") auto
    then show ?thesis by (simp add: process_thought_def Let_def gather_Inr)
  qed
qed

theorem completion_order_is_irrelevant_witness:
  "process_thought ex_constants ex_bilateral ConvergentFirst ''idea''
     = process_thought ex_constants ex_bilateral DivergentFirst ''idea'' \<and>
   snd (process_thought ex_constants ex_bilateral DivergentFirst ''idea'')
     = Inr (integrate_results ex_constants ex_callosum ex_divergent_result ex_convergent_result)"
proof -
  have d: "bp_divergent ex_bilateral ''idea'' = Inr ex_divergent_result \<and>
           bp_convergent ex_bilateral ''idea'' = Inr ex_convergent_result"
    by (simp add: ex_bilateral_def)
  have cc: "corpus_callosum ex_bilateral = ex_callosum" by (simp add: ex_bilateral_def)
  from completion_order_is_irrelevant [of ex_bilateral "''idea''" ex_constants] d cc
  show ?thesis by simp
qed

section \<open>The integration engine\<close>

lemma clamp01_bounds: "0 \<le> clamp01 x \<and> clamp01 x \<le> 1"
  by (simp add: clamp01_def)

lemma clamp01_lower: "m \<le> 1 \<Longrightarrow> m \<le> x \<Longrightarrow> m \<le> clamp01 x"
  by (simp add: clamp01_def)

lemma resolve_originating:
  "originating_divergent (resolve cr d c) = confidence d \<and>
   originating_convergent (resolve cr d c) = confidence c"
  by (simp add: resolve_def)

lemma total_synergy_bonus_cap: "total_synergy_bonus syns \<le> 0.3"
  unfolding total_synergy_bonus_def by (rule min.cobounded1)

lemma total_conflict_penalty_cap: "total_conflict_penalty ks \<le> 0.3"
  unfolding total_conflict_penalty_def by (rule min.cobounded1)

lemma integrate_results_confidence:
  "confidence (integrate_results k self d c) =
     clamp01 ((confidence d + confidence c) / 2
              + total_synergy_bonus (find_synergies (pattern_integrator self) d c)
              - total_conflict_penalty (conflicts (resolve (conflict_resolver self) d c)))"
  by (simp add: integrate_results_def Let_def calculate_confidence_def resolve_originating)

text \<open>
  C3. The integrated confidence is the clamped sum of the average of the two input
  confidences and the synergy bonus, less the conflict penalty; the bonus is \<open>0.1\<close>
  per unit of synergy strength and at most \<open>0.3\<close>, the penalty is \<open>0.1\<close> per unit of
  conflict penalty and at most \<open>0.3\<close>; so the integrated confidence lies in \<open>[0, 1]\<close>.
\<close>

theorem integrated_confidence_formula:
  "confidence (integrate_results k self d c) =
     clamp01 ((confidence d + confidence c) / 2
              + total_synergy_bonus (find_synergies (pattern_integrator self) d c)
              - total_conflict_penalty (conflicts (resolve (conflict_resolver self) d c))) \<and>
   total_synergy_bonus syns = min 0.3 (0.1 * sum_list (map synergy_strength syns)) \<and>
   total_synergy_bonus syns \<le> 0.3 \<and>
   total_conflict_penalty ks = min 0.3 (0.1 * sum_list (map conflict_penalty ks)) \<and>
   total_conflict_penalty ks \<le> 0.3 \<and>
   0 \<le> confidence (integrate_results k self d c) \<and>
   confidence (integrate_results k self d c) \<le> 1"
proof (intro conjI)
  show "confidence (integrate_results k self d c) =
     clamp01 ((confidence d + confidence c) / 2
              + total_synergy_bonus (find_synergies (pattern_integrator self) d c)
              - total_conflict_penalty (conflicts (resolve (conflict_resolver self) d c)))"
    by (rule integrate_results_confidence)
  show "total_synergy_bonus syns = min 0.3 (0.1 * sum_list (map synergy_strength syns))"
    by (rule total_synergy_bonus_def)
  show "total_synergy_bonus syns \<le> 0.3" by (rule total_synergy_bonus_cap)
  show "total_conflict_penalty ks = min 0.3 (0.1 * sum_list (map conflict_penalty ks))"
    by (rule total_conflict_penalty_def)
  show "total_conflict_penalty ks \<le> 0.3" by (rule total_conflict_penalty_cap)
  show "0 \<le> confidence (integrate_results k self d c)"
    unfolding integrate_results_confidence using clamp01_bounds by blast
  show "confidence (integrate_results k self d c) \<le> 1"
    unfolding integrate_results_confidence using clamp01_bounds by blast
qed

theorem integrated_confidence_formula_witness:
  "confidence (integrate_results ex_constants ex_callosum ex_divergent_result ex_convergent_result)
     = 0.75"
  using integrated_confidence_formula [of ex_constants ex_callosum ex_divergent_result
      ex_convergent_result "[]" "[]"]
  by (simp add: ex_callosum_def ex_divergent_result_def ex_convergent_result_def
      total_synergy_bonus_def total_conflict_penalty_def resolve_def clamp01_def)

text \<open>
  C4. For every pair of input results the integrated novelty is the clamped sum of the
  larger input novelty and the synergy novelty bonus, and it is at most \<open>1\<close>. It is
  at least the larger input novelty whenever both input novelty scores are at most
  \<open>1\<close>, the range of the data model.
\<close>

theorem integrated_novelty_monotone_in_range:
  "novelty_score (integrate_results k self d c) =
     clamp01 (max (novelty_score d) (novelty_score c)
              + synergy_novelty_bonus k (find_synergies (pattern_integrator self) d c)) \<and>
   novelty_score (integrate_results k self d c) \<le> 1 \<and>
   (novelty_score d \<le> 1 \<and> novelty_score c \<le> 1 \<longrightarrow>
      max (novelty_score d) (novelty_score c) \<le> novelty_score (integrate_results k self d c))"
proof (intro conjI impI)
  let ?m = "max (novelty_score d) (novelty_score c)"
  let ?b = "synergy_novelty_bonus k (find_synergies (pattern_integrator self) d c)"
  show eq: "novelty_score (integrate_results k self d c) = clamp01 (?m + ?b)"
    by (simp add: integrate_results_def Let_def calculate_novelty_def)
  show "novelty_score (integrate_results k self d c) \<le> 1"
    unfolding eq using clamp01_bounds by blast
  show "?m \<le> novelty_score (integrate_results k self d c)"
    if "novelty_score d \<le> 1 \<and> novelty_score c \<le> 1"
  proof -
    have "?m \<le> 1" using that by simp
    moreover have "0 \<le> ?b" by (simp add: synergy_novelty_bonus_def)
    then have "?m \<le> ?m + ?b" by simp
    ultimately have "?m \<le> clamp01 (?m + ?b)" by (rule clamp01_lower)
    then show ?thesis unfolding eq .
  qed
qed

theorem integrated_novelty_monotone_in_range_witness:
  "novelty_score ex_divergent_result \<le> 1 \<and> novelty_score ex_convergent_result \<le> 1 \<and>
   novelty_score (integrate_results ex_constants ex_callosum ex_divergent_result
     ex_convergent_result) = 0.85 \<and>
   max (novelty_score ex_divergent_result) (novelty_score ex_convergent_result)
     \<le> novelty_score (integrate_results ex_constants ex_callosum ex_divergent_result
          ex_convergent_result)"
proof -
  have a: "novelty_score ex_divergent_result \<le> 1" by (simp add: ex_divergent_result_def)
  have b: "novelty_score ex_convergent_result \<le> 1" by (simp add: ex_convergent_result_def)
  have v: "clamp01 (max (novelty_score ex_divergent_result) (novelty_score ex_convergent_result)
             + synergy_novelty_bonus ex_constants
                 (find_synergies (pattern_integrator ex_callosum) ex_divergent_result
                    ex_convergent_result)) = 0.85"
    by (simp add: clamp01_def synergy_novelty_bonus_def ex_constants_def ex_callosum_def
        ex_divergent_result_def ex_convergent_result_def)
  from integrated_novelty_monotone_in_range
         [of ex_constants ex_callosum ex_divergent_result ex_convergent_result] a b v
  show ?thesis by simp
qed

text \<open>
  An input novelty above \<open>1\<close>, which the dataclass accepts, is brought down to \<open>1\<close>
  by the clamp: with a divergent novelty of \<open>1.5\<close> the integrated novelty is \<open>1\<close>,
  below the larger input novelty.
\<close>

theorem novelty_above_range_counterexample:
  "novelty_score (integrate_results ex_constants ex_callosum
     (ex_divergent_result\<lparr>novelty_score := 1.5\<rparr>) ex_convergent_result) = 1 \<and>
   \<not> max (novelty_score (ex_divergent_result\<lparr>novelty_score := 1.5\<rparr>))
         (novelty_score ex_convergent_result)
       \<le> novelty_score (integrate_results ex_constants ex_callosum
            (ex_divergent_result\<lparr>novelty_score := 1.5\<rparr>) ex_convergent_result)"
  by (simp add: integrate_results_def Let_def calculate_novelty_def clamp01_def
      synergy_novelty_bonus_def ex_constants_def ex_callosum_def ex_divergent_result_def
      ex_convergent_result_def)

section \<open>The merged insights\<close>












section \<open>The invariant of returned results\<close>

lemma integrate_results_well_formed: "well_formed (integrate_results k self d c)"
  using clamp01_bounds
  by (simp add: well_formed_def integrate_results_def Let_def combine_paths_def
      calculate_confidence_def)

lemma integrate_results_path:
  "processing_path (integrate_results k self d c)
     = processing_path d @ processing_path c @ [integration_marker k]"
  by (simp add: integrate_results_def Let_def combine_paths_def)

lemma process_thought_returns:
  assumes "snd (process_thought k self sched input_data) = Inr r"
  shows "\<exists>d c. bp_divergent self input_data = Inr d \<and> bp_convergent self input_data = Inr c \<and>
               r = integrate_results k (corpus_callosum self) d c"
  using assms
  by (cases sched; cases "bp_divergent self input_data"; cases "bp_convergent self input_data")
     (auto simp add: process_thought_def Let_def gather_def)

text \<open>
  C8. Whenever \<open>process_input\<close> returns a result, a mode was selected. In bilateral
  mode the result has a non-empty processing path and a confidence in \<open>[0, 1]\<close>, and
  its processing path is the divergent path, then the convergent path, then the
  integration marker. In divergent-only and convergent-only mode the result is the
  selected strategy's result as it is, so it has a non-empty path and a confidence in
  \<open>[0, 1]\<close> exactly when the strategy's result has.
\<close>

theorem returned_result_by_mode:
  assumes ret: "snd (process_input k self sched input_data) = Inr r"
  shows "\<exists>p. analyze_task (mode_selector self) input_data = Inr p \<and>
           (select_mode p = BILATERAL \<longrightarrow>
              well_formed r \<and>
              (\<exists>d c. bp_divergent (bilateral self) input_data = Inr d \<and>
                     bp_convergent (bilateral self) input_data = Inr c \<and>
                     processing_path r
                       = processing_path d @ processing_path c @ [integration_marker k])) \<and>
           (select_mode p = DIVERGENT \<longrightarrow> es_divergent self input_data = Inr r) \<and>
           (select_mode p = CONVERGENT \<longrightarrow> es_convergent self input_data = Inr r)"
proof (cases "analyze_task (mode_selector self) input_data")
  case (Inl e)
  with ret show ?thesis by (simp add: process_input_def)
next
  case (Inr p)
  show ?thesis
  proof (cases "select_mode p")
    case BILATERAL
    with Inr ret have "snd (process_thought k (bilateral self) sched input_data) = Inr r"
      by (simp add: process_input_def Let_def split: prod.splits)
    from process_thought_returns [OF this] obtain d c where
      "bp_divergent (bilateral self) input_data = Inr d"
      "bp_convergent (bilateral self) input_data = Inr c"
      "r = integrate_results k (corpus_callosum (bilateral self)) d c"
      by blast
    with Inr BILATERAL show ?thesis
      by (simp add: integrate_results_well_formed integrate_results_path)
  next
    case DIVERGENT
    with Inr ret have "es_divergent self input_data = Inr r"
      by (simp add: process_input_def Let_def)
    with Inr DIVERGENT show ?thesis by simp
  next
    case CONVERGENT
    with Inr ret have "es_convergent self input_data = Inr r"
      by (simp add: process_input_def Let_def)
    with Inr CONVERGENT show ?thesis by simp
  qed
qed

theorem returned_result_by_mode_witness:
  "snd (process_input ex_constants ex_syna DivergentFirst ''idea'')
     = Inr (integrate_results ex_constants ex_callosum ex_divergent_result ex_convergent_result) \<and>
   well_formed (integrate_results ex_constants ex_callosum ex_divergent_result
     ex_convergent_result) \<and>
   processing_path (integrate_results ex_constants ex_callosum ex_divergent_result
     ex_convergent_result) = [''divergent'', ''convergent'', ''integration''] \<and>
   snd (process_input ex_constants ex_syna_divergent DivergentFirst ''idea'')
     = Inr ex_divergent_result \<and>
   es_divergent ex_syna_divergent ''idea'' = Inr ex_divergent_result"
proof -
  let ?r = "integrate_results ex_constants ex_callosum ex_divergent_result ex_convergent_result"
  have prof: "analyze_task (mode_selector ex_syna) ''idea''
                = Inr \<lparr>complexity = 0.5, creativity_required = 0.9, analysis_required = 0.8\<rparr>"
    by (simp add: ex_syna_def ex_collaborators_def)
  have bd: "bp_divergent (bilateral ex_syna) ''idea'' = Inr ex_divergent_result"
    and bc: "bp_convergent (bilateral ex_syna) ''idea'' = Inr ex_convergent_result"
    and cal: "corpus_callosum (bilateral ex_syna) = ex_callosum"
    by (simp_all add: ex_syna_def ex_bilateral_def)
  have ret1: "snd (process_input ex_constants ex_syna DivergentFirst ''idea'') = Inr ?r"
    by (simp add: process_input_def prof select_mode_def process_thought_def Let_def bd bc cal
        gather_def)
  have prof2: "analyze_task (mode_selector ex_syna_divergent) ''idea''
                = Inr \<lparr>complexity = 0.5, creativity_required = 0.6, analysis_required = 0.2\<rparr>"
    by (simp add: ex_syna_divergent_def)
  have ret2: "snd (process_input ex_constants ex_syna_divergent DivergentFirst ''idea'')
                = Inr ex_divergent_result"
    by (simp add: process_input_def ex_syna_divergent_def select_mode_def Let_def)
  from returned_result_by_mode [OF ret1] prof bd bc
  have "well_formed ?r"
    and "processing_path ?r = processing_path ex_divergent_result
           @ processing_path ex_convergent_result @ [integration_marker ex_constants]"
    by (auto simp add: select_mode_def)
  moreover from returned_result_by_mode [OF ret2] prof2
  have "es_divergent ex_syna_divergent ''idea'' = Inr ex_divergent_result"
    by (auto simp add: select_mode_def)
  ultimately show ?thesis
    using ret1 ret2
    by (simp add: ex_divergent_result_def ex_convergent_result_def ex_constants_def)
qed

text \<open>
  A divergent strategy whose result has an empty processing path and a confidence of
  \<open>1.5\<close>: in divergent-only mode \<open>process_input\<close> returns that result unchecked.
\<close>

theorem single_mode_result_unchecked_counterexample:
  "snd (process_input ex_constants ex_syna_unchecked DivergentFirst ''idea'')
     = Inr ex_malformed_result \<and>
   processing_path ex_malformed_result = [] \<and>
   \<not> confidence ex_malformed_result \<le> 1 \<and>
   \<not> well_formed ex_malformed_result"
  by (simp add: process_input_def select_mode_def Let_def ex_syna_unchecked_def
      ex_malformed_result_def well_formed_def)

section \<open>Integration in the store\<close>

text \<open>
  What \<open>integrate_results\<close> does to the store is decided by what its callees do to
  it: the method itself only reads fields and constructs one object. The lemmas below
  are about stores that extend one another, about callees that only allocate, and about
  callees that compute the functions of the value-level model.
\<close>

lemma extends_refl: "extends h h"
  by (simp add: extends_def)








lemma extends_alloc:
  "alloc h ob = (a, h') \<Longrightarrow> extends h h' \<and> a = length h \<and> length h' = Suc (length h)"
  by (auto simp add: alloc_def extends_def)






























end
